theory Spec2Isabelle
  imports Main "HOL-Library.Sublist"
begin

section \<open>The run environment of py\_pip\_deb\_checks.py\<close>

text \<open>
  The module \<^verbatim>\<open>roswtf/py_pip_deb_checks.py\<close> talks to three collaborators: the
  Python import system, the OS detector of \<^verbatim>\<open>rospkg\<close> and the shell that runs
  \<^verbatim>\<open>dpkg\<close>. Each of them is a field of the run environment, and every exception
  that the source lets escape is a value of \<open>py_exception\<close>.
\<close>

datatype py_exception =
    ImportError
  | AttributeError
  | TypeError
  | KeyError
  | OsNotDetected
  | OtherException string

text \<open>
  What a loaded module shows of its \<^verbatim>\<open>__file__\<close>: a built-in module has no such
  attribute (reading it raises AttributeError), a namespace package has the value
  \<^verbatim>\<open>None\<close> (and \<^verbatim>\<open>'/usr/local' in None\<close> raises TypeError), every other module
  has a path string.
\<close>

datatype file_attribute = NoFileAttribute | FileIsNone | FilePath string

datatype py_module = Module (file_dunder: file_attribute)

text \<open>
  \<^verbatim>\<open>subprocess.call(cmd, shell=True)\<close> starts \<^verbatim>\<open>/bin/sh -c cmd\<close> and returns the
  exit status of the shell. The field \<open>shell\<close> is that status on a machine where the
  shell starts for every command; the call that can also raise is
  \<open>is_debian_package_installed_full\<close> below.
\<close>

record run_env =
  sys_modules :: "string \<rightharpoonup> py_module"
  module_finder :: "string \<Rightarrow> py_exception + py_module"
  detect_os :: "py_exception + (string \<times> string \<times> string)"
  shell :: "string \<Rightarrow> int"

type_synonym 'a result = "py_exception + 'a"

text \<open>
  \<^verbatim>\<open>importlib.import_module\<close> and the \<^verbatim>\<open>import\<close> statement: the module cache
  \<^verbatim>\<open>sys.modules\<close> is looked up first; a module that is found and executed is left in
  the cache, a failed import leaves the cache as it was. This is the interpreter of the
  specification, where whether a name can be imported is a fixed property of the name;
  the interpreter whose module code has effects is \<open>import_module_full\<close> below.
\<close>

definition import_module :: "string \<Rightarrow> run_env \<Rightarrow> py_module result \<times> run_env" where
  "import_module name s =
     (case sys_modules s name of
        Some m \<Rightarrow> (Inr m, s)
      | None \<Rightarrow>
          (case module_finder s name of
             Inl e \<Rightarrow> (Inl e, s)
           | Inr m \<Rightarrow> (Inr m, s\<lparr>sys_modules := (sys_modules s)(name \<mapsto> m)\<rparr>)))"

definition subprocess_call :: "run_env \<Rightarrow> string \<Rightarrow> int" where
  "subprocess_call s cmd = shell s cmd"

section \<open>The registry and the predicates\<close>

text \<open>
  The dictionary \<^verbatim>\<open>py_to_deb_packages\<close>, as the list of its items in iteration order.
  A Python dictionary has no key twice.
\<close>

type_synonym registry = "(string \<times> string) list"

definition py_to_deb_packages :: registry where
  "py_to_deb_packages =
     [(''bloom'', ''python-bloom''),
      (''catkin'', ''python-catkin''),
      (''rospkg'', ''python-rospkg''),
      (''rosinstall'', ''python-rosinstall''),
      (''rosrelease'', ''python-rosrelease''),
      (''rosdep'', ''python-rosdep'')]"

definition get_host_os :: "run_env \<Rightarrow> string result \<times> run_env" where
  "get_host_os s =
     (case import_module ''rospkg.os_detect'' s of
        (Inl e, s') \<Rightarrow> (Inl e, s')
      | (Inr m, s') \<Rightarrow>
          (case detect_os s' of
             Inl e \<Rightarrow> (Inl e, s')
           | Inr (os_name, os_version, os_codename) \<Rightarrow> (Inr os_name, s')))"

definition is_host_os_ubuntu :: "run_env \<Rightarrow> bool result \<times> run_env" where
  "is_host_os_ubuntu s =
     (case get_host_os s of
        (Inl e, s') \<Rightarrow> (Inl e, s')
      | (Inr os_name, s') \<Rightarrow> (Inr (os_name = ''ubuntu''), s'))"

definition is_debian_package_installed :: "run_env \<Rightarrow> string \<Rightarrow> bool" where
  "is_debian_package_installed s deb_pkg = (subprocess_call s (''dpkg -l '' @ deb_pkg) = 0)"

text \<open>Python's \<^verbatim>\<open>sub in path\<close> on strings, scanning the start positions from the left.\<close>

fun str_contains :: "string \<Rightarrow> string \<Rightarrow> bool" where
  "str_contains sub [] = (sub = [])"
| "str_contains sub (c # cs) = (prefix sub (c # cs) \<or> str_contains sub cs)"

definition is_a_pip_path_on_ubuntu :: "string \<Rightarrow> bool" where
  "is_a_pip_path_on_ubuntu path = str_contains ''/usr/local'' path"

definition is_python_package_installed :: "string \<Rightarrow> run_env \<Rightarrow> bool result \<times> run_env" where
  "is_python_package_installed python_pkg s =
     (case import_module python_pkg s of
        (Inr m, s') \<Rightarrow> (Inr True, s')
      | (Inl e, s') \<Rightarrow> (if e = ImportError then (Inr False, s') else (Inl e, s')))"

definition is_python_package_installed_via_pip_on_ubuntu ::
    "string \<Rightarrow> run_env \<Rightarrow> bool result \<times> run_env" where
  "is_python_package_installed_via_pip_on_ubuntu python_pkg s =
     (case import_module python_pkg s of
        (Inr pkg_handle, s') \<Rightarrow>
          (case file_dunder pkg_handle of
             NoFileAttribute \<Rightarrow> (Inl AttributeError, s')
           | FileIsNone \<Rightarrow> (Inl TypeError, s')
           | FilePath path \<Rightarrow> (Inr (is_a_pip_path_on_ubuntu path), s'))
      | (Inl e, s') \<Rightarrow> (if e = ImportError then (Inr False, s') else (Inl e, s')))"

section \<open>The warning rules\<close>

text \<open>
  Each rule takes the run context, which it never reads, and returns \<^verbatim>\<open>None\<close> (it
  falls off its end) or the warning string. The \<^verbatim>\<open>for\<close> loops run over the keys of
  the registry with the accumulator \<^verbatim>\<open>warn_str\<close>; an exception leaves the loop and
  the rule at once.
\<close>

fun python_module_install_loop ::
    "string list \<Rightarrow> string \<Rightarrow> run_env \<Rightarrow> string result \<times> run_env" where
  "python_module_install_loop [] warn_str s = (Inr warn_str, s)"
| "python_module_install_loop (py_pkg # rest) warn_str s =
     (case is_python_package_installed py_pkg s of
        (Inl e, s') \<Rightarrow> (Inl e, s')
      | (Inr installed, s') \<Rightarrow>
          python_module_install_loop rest
            (if \<not> installed then warn_str @ py_pkg @ '' -- '' else warn_str) s')"

definition python_module_install_check ::
    "registry \<Rightarrow> 'ctx \<Rightarrow> run_env \<Rightarrow> string option result \<times> run_env" where
  "python_module_install_check reg ctx s =
     (case python_module_install_loop (map fst reg) [] s of
        (Inl e, s') \<Rightarrow> (Inl e, s')
      | (Inr warn_str, s') \<Rightarrow> (Inr (if warn_str \<noteq> [] then Some warn_str else None), s'))"

fun deb_install_loop :: "registry \<Rightarrow> string list \<Rightarrow> string \<Rightarrow> run_env \<Rightarrow> string result" where
  "deb_install_loop reg [] warn_str s = Inr warn_str"
| "deb_install_loop reg (py_pkg # rest) warn_str s =
     (case map_of reg py_pkg of
        None \<Rightarrow> Inl KeyError
      | Some deb_pkg \<Rightarrow>
          deb_install_loop reg rest
            (if \<not> is_debian_package_installed s deb_pkg
             then warn_str @ py_pkg @ '' ('' @ deb_pkg @ '') -- ''
             else warn_str) s)"

definition deb_install_check_on_ubuntu ::
    "registry \<Rightarrow> 'ctx \<Rightarrow> run_env \<Rightarrow> string option result \<times> run_env" where
  "deb_install_check_on_ubuntu reg ctx s =
     (case is_host_os_ubuntu s of
        (Inl e, s') \<Rightarrow> (Inl e, s')
      | (Inr is_ubuntu, s') \<Rightarrow>
          (if is_ubuntu then
             (case deb_install_loop reg (map fst reg) [] s' of
                Inl e \<Rightarrow> (Inl e, s')
              | Inr warn_str \<Rightarrow> (Inr (if warn_str \<noteq> [] then Some warn_str else None), s'))
           else (Inr None, s')))"

fun pip_install_loop :: "string list \<Rightarrow> string \<Rightarrow> run_env \<Rightarrow> string result \<times> run_env" where
  "pip_install_loop [] warn_str s = (Inr warn_str, s)"
| "pip_install_loop (py_pkg # rest) warn_str s =
     (case is_python_package_installed_via_pip_on_ubuntu py_pkg s of
        (Inl e, s') \<Rightarrow> (Inl e, s')
      | (Inr via_pip, s') \<Rightarrow>
          pip_install_loop rest (if via_pip then warn_str @ py_pkg @ '' -- '' else warn_str) s')"

definition pip_install_check_on_ubuntu ::
    "registry \<Rightarrow> 'ctx \<Rightarrow> run_env \<Rightarrow> string option result \<times> run_env" where
  "pip_install_check_on_ubuntu reg ctx s =
     (case is_host_os_ubuntu s of
        (Inl e, s') \<Rightarrow> (Inl e, s')
      | (Inr is_ubuntu, s') \<Rightarrow>
          (if is_ubuntu then
             (case pip_install_loop (map fst reg) [] s' of
                (Inl e, s'') \<Rightarrow> (Inl e, s'')
              | (Inr warn_str, s'') \<Rightarrow>
                  (Inr (if warn_str \<noteq> [] then Some warn_str else None), s''))
           else (Inr None, s')))"

section \<open>The dispatcher\<close>

text \<open>
  Modelled from the spec: \<^verbatim>\<open>roswtf.rules.warning_rule\<close> and \<^verbatim>\<open>error_rule\<close> are not
  among the sources. The spec gives their signature only (rule descriptor, rule result,
  context), so the host framework is the list of the calls it has received.
\<close>

type_synonym 'ctx rule = "'ctx \<Rightarrow> run_env \<Rightarrow> string option result \<times> run_env"

datatype 'ctx framework_call =
    Warning_rule "'ctx rule \<times> string" "string option" 'ctx
  | Error_rule "'ctx rule \<times> string" "string option" 'ctx

definition warning_rule ::
    "'ctx rule \<times> string \<Rightarrow> string option \<Rightarrow> 'ctx \<Rightarrow>
     'ctx framework_call list \<Rightarrow> 'ctx framework_call list" where
  "warning_rule r ret ctx calls = calls @ [Warning_rule r ret ctx]"

definition error_rule ::
    "'ctx rule \<times> string \<Rightarrow> string option \<Rightarrow> 'ctx \<Rightarrow>
     'ctx framework_call list \<Rightarrow> 'ctx framework_call list" where
  "error_rule r ret ctx calls = calls @ [Error_rule r ret ctx]"

definition warnings :: "registry \<Rightarrow> ('ctx rule \<times> string) list" where
  "warnings reg =
     [(python_module_install_check reg,
       ''You are missing core ROS Python modules: ''),
      (pip_install_check_on_ubuntu reg,
       ''You have pip installed packages on Ubuntu, remove and install using Debian packages: ''),
      (deb_install_check_on_ubuntu reg,
       ''You are missing Debian packages for core ROS Python modules: '')]"

definition errors :: "registry \<Rightarrow> ('ctx rule \<times> string) list" where
  "errors reg = []"

text \<open>
  The two \<^verbatim>\<open>for r in ...\<close> loops of \<^verbatim>\<open>wtf_check\<close>, over the rest of the list.
  Before them \<^verbatim>\<open>wtf_check\<close> runs \<^verbatim>\<open>from roswtf.rules import warning_rule, error_rule\<close>,
  an import like any other; a module \<^verbatim>\<open>roswtf.rules\<close> that loads is taken to hold
  the two functions.
\<close>

fun warnings_loop ::
    "('ctx rule \<times> string) list \<Rightarrow> 'ctx \<Rightarrow> run_env \<Rightarrow> 'ctx framework_call list \<Rightarrow>
     unit result \<times> run_env \<times> 'ctx framework_call list" where
  "warnings_loop [] ctx s calls = (Inr (), s, calls)"
| "warnings_loop (r # rest) ctx s calls =
     (case fst r ctx s of
        (Inl e, s') \<Rightarrow> (Inl e, s', calls)
      | (Inr ret, s') \<Rightarrow> warnings_loop rest ctx s' (warning_rule r ret ctx calls))"

fun errors_loop ::
    "('ctx rule \<times> string) list \<Rightarrow> 'ctx \<Rightarrow> run_env \<Rightarrow> 'ctx framework_call list \<Rightarrow>
     unit result \<times> run_env \<times> 'ctx framework_call list" where
  "errors_loop [] ctx s calls = (Inr (), s, calls)"
| "errors_loop (r # rest) ctx s calls =
     (case fst r ctx s of
        (Inl e, s') \<Rightarrow> (Inl e, s', calls)
      | (Inr ret, s') \<Rightarrow> errors_loop rest ctx s' (error_rule r ret ctx calls))"

definition wtf_check ::
    "registry \<Rightarrow> 'ctx \<Rightarrow> run_env \<Rightarrow> 'ctx framework_call list \<Rightarrow>
     unit result \<times> run_env \<times> 'ctx framework_call list" where
  "wtf_check reg ctx s calls =
     (case import_module ''roswtf.rules'' s of
        (Inl e, s0) \<Rightarrow> (Inl e, s0, calls)
      | (Inr rules, s0) \<Rightarrow>
          (case warnings_loop (warnings reg) ctx s0 calls of
             (Inl e, s', calls') \<Rightarrow> (Inl e, s', calls')
           | (Inr u, s', calls') \<Rightarrow> errors_loop (errors reg) ctx s' calls'))"

section \<open>What the claims speak of\<close>

text \<open>The outcome of importing a name in a state, without the state that is left.\<close>

definition import_outcome :: "run_env \<Rightarrow> string \<Rightarrow> py_module result" where
  "import_outcome s name = fst (import_module name s)"

text \<open>
  The payload of a warning as the specification words it: no signal for an empty list
  of items, else every item followed by the separator.
\<close>

definition warning_payload :: "string list \<Rightarrow> string option" where
  "warning_payload items =
     (if items = [] then None else Some (concat (map (\<lambda>item. item @ '' -- '') items)))"

text \<open>The path that the conflict variant reads off a loaded module, when there is one.\<close>

definition resolved_path :: "run_env \<Rightarrow> string \<Rightarrow> string option" where
  "resolved_path s name =
     (case import_outcome s name of
        Inr m \<Rightarrow> (case file_dunder m of FilePath path \<Rightarrow> Some path | _ \<Rightarrow> None)
      | Inl e \<Rightarrow> None)"


text \<open>
  The states in which \<^verbatim>\<open>wtf_check\<close> runs its three warning rules, and the state it
  ends in when all of them return.
\<close>

definition state_at_first_rule :: "run_env \<Rightarrow> run_env" where
  "state_at_first_rule s = snd (import_module ''roswtf.rules'' s)"

definition state_at_second_rule :: "registry \<Rightarrow> 'ctx \<Rightarrow> run_env \<Rightarrow> run_env" where
  "state_at_second_rule reg ctx s =
     snd (python_module_install_check reg ctx (state_at_first_rule s))"

definition state_at_third_rule :: "registry \<Rightarrow> 'ctx \<Rightarrow> run_env \<Rightarrow> run_env" where
  "state_at_third_rule reg ctx s =
     snd (pip_install_check_on_ubuntu reg ctx (state_at_second_rule reg ctx s))"

definition state_at_end :: "registry \<Rightarrow> 'ctx \<Rightarrow> run_env \<Rightarrow> run_env" where
  "state_at_end reg ctx s =
     snd (deb_install_check_on_ubuntu reg ctx (state_at_third_rule reg ctx s))"

text \<open>
  The end-to-end example of the specification: \<^verbatim>\<open>alpha\<close> cannot be imported,
  \<^verbatim>\<open>beta\<close> is imported from \<^verbatim>\<open>/usr/local/lib/beta\<close>, the host is Ubuntu, and the
  package database knows \<^verbatim>\<open>python-beta\<close> only.
\<close>

definition example_registry :: registry where
  "example_registry = [(''alpha'', ''python-alpha''), (''beta'', ''python-beta'')]"

definition example_env :: run_env where
  "example_env =
     \<lparr>sys_modules = Map.empty,
      module_finder = (\<lambda>name.
        if name = ''beta'' then Inr (Module (FilePath ''/usr/local/lib/beta''))
        else if name = ''rospkg.os_detect'' then Inr (Module (FilePath ''/usr/lib/os_detect.py''))
        else if name = ''roswtf.rules'' then Inr (Module (FilePath ''/opt/ros/roswtf/rules.py''))
        else Inl ImportError),
      detect_os = Inr (''ubuntu'', ''12.04'', ''precise''),
      shell = (\<lambda>cmd. if cmd = ''dpkg -l python-beta'' then 0 else 1)\<rparr>"

text \<open>The same machine under another distribution.\<close>

definition example_env_debian :: run_env where
  "example_env_debian = example_env\<lparr>detect_os := Inr (''debian'', ''7'', ''wheezy'')\<rparr>"

text \<open>A machine where the OS is not recognised.\<close>

definition example_env_undetected :: run_env where
  "example_env_undetected = example_env\<lparr>detect_os := Inl OsNotDetected\<rparr>"

text \<open>
  A machine where importing \<^verbatim>\<open>alpha\<close> stops with a SyntaxError, and one where
  \<^verbatim>\<open>beta\<close> is a module without \<^verbatim>\<open>__file__\<close>.
\<close>

definition example_env_broken :: run_env where
  "example_env_broken =
     example_env\<lparr>module_finder := (\<lambda>name.
       if name = ''alpha'' then Inl (OtherException ''SyntaxError'')
       else module_finder example_env name)\<rparr>"

definition example_env_no_file :: run_env where
  "example_env_no_file =
     example_env\<lparr>module_finder := (\<lambda>name.
       if name = ''beta'' then Inr (Module NoFileAttribute)
       else module_finder example_env name)\<rparr>"

section \<open>The library calls in full\<close>

text \<open>
  \<^verbatim>\<open>subprocess.call\<close> in full: it raises (OSError, ValueError) when \<^verbatim>\<open>/bin/sh\<close>
  cannot be started or the argument is rejected, else it returns the exit status of the
  shell, which is non-zero (126 or 127) when the shell cannot launch the tool. The
  source has no \<^verbatim>\<open>try\<close> around the call.
\<close>

type_synonym subprocess = "string \<Rightarrow> py_exception + int"

definition is_debian_package_installed_full :: "subprocess \<Rightarrow> string \<Rightarrow> bool result" where
  "is_debian_package_installed_full call deb_pkg =
     (case call (''dpkg -l '' @ deb_pkg) of
        Inl e \<Rightarrow> Inl e
      | Inr status \<Rightarrow> Inr (status = 0))"

text \<open>
  The interpreter in full. Importing a name that is not in \<^verbatim>\<open>sys.modules\<close> runs the
  code of the module, and that code can change the interpreter (load other modules,
  write to the globals of loaded ones) before it ends or raises. What it did stays when
  it raises; only the failed module itself is taken out of \<^verbatim>\<open>sys.modules\<close>.
\<close>

record 'h interpreter =
  loaded :: "string \<rightharpoonup> py_module"
  globals :: 'h

type_synonym 'h module_code =
  "string \<Rightarrow> 'h interpreter \<Rightarrow> py_module result \<times> 'h interpreter"

definition import_module_full ::
    "'h module_code \<Rightarrow> string \<Rightarrow> 'h interpreter \<Rightarrow> py_module result \<times> 'h interpreter" where
  "import_module_full code name s =
     (case loaded s name of
        Some m \<Rightarrow> (Inr m, s)
      | None \<Rightarrow>
          (case code name s of
             (Inl e, s') \<Rightarrow> (Inl e, s'\<lparr>loaded := (loaded s')(name := None)\<rparr>)
           | (Inr m, s') \<Rightarrow> (Inr m, s'\<lparr>loaded := (loaded s')(name \<mapsto> m)\<rparr>)))"

definition is_python_package_installed_full ::
    "'h module_code \<Rightarrow> string \<Rightarrow> 'h interpreter \<Rightarrow> bool result \<times> 'h interpreter" where
  "is_python_package_installed_full code python_pkg s =
     (case import_module_full code python_pkg s of
        (Inr m, s') \<Rightarrow> (Inr True, s')
      | (Inl e, s') \<Rightarrow> (if e = ImportError then (Inr False, s') else (Inl e, s')))"


text \<open>
  The run environment above is this interpreter with module code that has no effect:
  its state is \<^verbatim>\<open>sys.modules\<close> alone.
\<close>

definition effect_free_code :: "(string \<Rightarrow> py_module result) \<Rightarrow> unit module_code" where
  "effect_free_code finder name i = (finder name, i)"

definition interpreter_of :: "run_env \<Rightarrow> unit interpreter" where
  "interpreter_of s = \<lparr>loaded = sys_modules s, globals = ()\<rparr>"

text \<open>
  Four machines for \<^verbatim>\<open>subprocess.call\<close>: the package database of the example, a
  database that knows every package, a machine without \<^verbatim>\<open>dpkg\<close> (the shell answers
  127), and one where the shell cannot be started.
\<close>

definition example_call :: subprocess where
  "example_call cmd = (if cmd = ''dpkg -l python-beta'' then Inr 0 else Inr 1)"


definition example_call_no_dpkg :: subprocess where
  "example_call_no_dpkg cmd = Inr 127"

definition example_call_no_shell :: subprocess where
  "example_call_no_shell cmd = Inl (OtherException ''OSError'')"



section \<open>The conflicting-path predicate\<close>

lemma str_contains_iff: "str_contains sub path \<longleftrightarrow> (\<exists>pre post. path = pre @ sub @ post)"
proof (induction path)
  case Nil
  show ?case by auto
next
  case (Cons c cs)
  have "sublist sub (c # cs) \<longleftrightarrow> prefix sub (c # cs) \<or> sublist sub cs"
    by (rule sublist_Cons_right)
  with Cons show ?case
    by (simp add: sublist_def)
qed

text \<open>
  C4. \<^verbatim>\<open>is_a_pip_path_on_ubuntu\<close> takes the path string only (no environment), and is
  true exactly when the path has \<^verbatim>\<open>/usr/local\<close> as a contiguous substring; it is true
  of \<^verbatim>\<open>/usr/local/lib/foo\<close> and false of \<^verbatim>\<open>/usr/lib/foo\<close>.
\<close>

theorem is_a_pip_path_on_ubuntu_substring:
  "(is_a_pip_path_on_ubuntu path \<longleftrightarrow> (\<exists>pre post. path = pre @ ''/usr/local'' @ post))
   \<and> is_a_pip_path_on_ubuntu ''/usr/local/lib/foo''
   \<and> \<not> is_a_pip_path_on_ubuntu ''/usr/lib/foo''"
proof (intro conjI)
  show "is_a_pip_path_on_ubuntu path \<longleftrightarrow> (\<exists>pre post. path = pre @ ''/usr/local'' @ post)"
    unfolding is_a_pip_path_on_ubuntu_def by (rule str_contains_iff)
  show "is_a_pip_path_on_ubuntu ''/usr/local/lib/foo''"
    unfolding is_a_pip_path_on_ubuntu_def by simp
  show "\<not> is_a_pip_path_on_ubuntu ''/usr/lib/foo''"
    unfolding is_a_pip_path_on_ubuntu_def by simp
qed

section \<open>The registry of the source\<close>

text \<open>The six keys of \<^verbatim>\<open>py_to_deb_packages\<close> are different, as the keys of a dictionary are.\<close>

lemma py_to_deb_packages_keys:
  "distinct (map fst py_to_deb_packages) \<and> length py_to_deb_packages = 6"
  by (simp add: py_to_deb_packages_def)

section \<open>Imports leave every later observation as it was\<close>

lemma import_outcome_after_import:
  "import_outcome (snd (import_module name s)) = import_outcome s"
  by (rule ext)
     (simp add: import_outcome_def import_module_def split: option.splits sum.splits)

lemma shell_after_import: "shell (snd (import_module name s)) = shell s"
  by (simp add: import_module_def split: option.splits sum.splits)

lemma detect_os_after_import: "detect_os (snd (import_module name s)) = detect_os s"
  by (simp add: import_module_def split: option.splits sum.splits)

lemma is_python_package_installed_fst:
  "fst (is_python_package_installed name s) =
     (case import_outcome s name of
        Inr m \<Rightarrow> Inr True
      | Inl e \<Rightarrow> if e = ImportError then Inr False else Inl e)"
  by (simp add: is_python_package_installed_def import_outcome_def split: prod.splits sum.splits)

lemma is_python_package_installed_snd:
  "snd (is_python_package_installed name s) = snd (import_module name s)"
  by (simp add: is_python_package_installed_def split: prod.splits sum.splits)

lemma via_pip_fst:
  "fst (is_python_package_installed_via_pip_on_ubuntu name s) =
     (case import_outcome s name of
        Inr m \<Rightarrow>
          (case file_dunder m of
             NoFileAttribute \<Rightarrow> Inl AttributeError
           | FileIsNone \<Rightarrow> Inl TypeError
           | FilePath path \<Rightarrow> Inr (is_a_pip_path_on_ubuntu path))
      | Inl e \<Rightarrow> if e = ImportError then Inr False else Inl e)"
  by (simp add: is_python_package_installed_via_pip_on_ubuntu_def import_outcome_def
      split: prod.splits sum.splits file_attribute.splits)

lemma via_pip_snd:
  "snd (is_python_package_installed_via_pip_on_ubuntu name s) = snd (import_module name s)"
  by (simp add: is_python_package_installed_via_pip_on_ubuntu_def
      split: prod.splits sum.splits file_attribute.splits)

section \<open>The Missing-Modules rule\<close>

lemma python_module_install_loop_decided:
  assumes "\<forall>n\<in>set names. import_outcome s n = Inl ImportError \<or> (\<exists>m. import_outcome s n = Inr m)"
  shows "fst (python_module_install_loop names w s) =
     Inr (w @ concat (map (\<lambda>n. n @ '' -- '')
                        (filter (\<lambda>n. import_outcome s n = Inl ImportError) names)))"
  using assms
proof (induction names arbitrary: w s)
  case Nil
  show ?case by simp
next
  case (Cons n names)
  obtain r s' where step: "is_python_package_installed n s = (r, s')"
    by (cases "is_python_package_installed n s")
  have s': "s' = snd (import_module n s)"
    using step is_python_package_installed_snd [of n s] by simp
  have same: "import_outcome s' = import_outcome s"
    unfolding s' by (rule import_outcome_after_import)
  have r: "r = (case import_outcome s n of
        Inr m \<Rightarrow> Inr True
      | Inl e \<Rightarrow> if e = ImportError then Inr False else Inl e)"
    using step is_python_package_installed_fst [of n s] by simp
  have rest: "\<forall>k\<in>set names. import_outcome s' k = Inl ImportError \<or> (\<exists>m. import_outcome s' k = Inr m)"
    using Cons.prems same by simp
  from Cons.prems have "import_outcome s n = Inl ImportError \<or> (\<exists>m. import_outcome s n = Inr m)"
    by simp
  then show ?case
  proof
    assume missing: "import_outcome s n = Inl ImportError"
    then have "r = Inr False" using r by simp
    then show ?thesis
      using step Cons.IH [OF rest] missing same by simp
  next
    assume "\<exists>m. import_outcome s n = Inr m"
    then obtain m where loaded: "import_outcome s n = Inr m" ..
    then have "r = Inr True" using r by simp
    then show ?thesis
      using step Cons.IH [OF rest] loaded same by simp
  qed
qed


text \<open>
  C1. In every registry and every state where each registry package is either not
  importable (its import raises ImportError) or importable (its import loads a module),
  \<^verbatim>\<open>python_module_install_check\<close> returns the payload of exactly the names that are
  not importable, in registry order, each followed by \<^verbatim>\<open>" -- "\<close>; a registry without
  a repeated key lists no name twice; and when every package is importable the rule
  returns \<^verbatim>\<open>None\<close>.
\<close>

theorem python_module_install_check_payload:
  assumes "\<forall>n\<in>set (map fst reg).
             import_outcome s n = Inl ImportError \<or> (\<exists>m. import_outcome s n = Inr m)"
  shows "fst (python_module_install_check reg ctx s) =
           Inr (warning_payload
                  (filter (\<lambda>n. import_outcome s n = Inl ImportError) (map fst reg)))
         \<and> (distinct (map fst reg) \<longrightarrow>
              distinct (filter (\<lambda>n. import_outcome s n = Inl ImportError) (map fst reg)))
         \<and> ((\<forall>n\<in>set (map fst reg). \<exists>m. import_outcome s n = Inr m) \<longrightarrow>
              fst (python_module_install_check reg ctx s) = Inr None)"
proof -
  let ?missing = "filter (\<lambda>n. import_outcome s n = Inl ImportError) (map fst reg)"
  obtain r s' where run: "python_module_install_loop (map fst reg) [] s = (r, s')"
    by (cases "python_module_install_loop (map fst reg) [] s")
  have "r = Inr (concat (map (\<lambda>n. n @ '' -- '') ?missing))"
    using python_module_install_loop_decided [OF assms, of "[]"] run by simp
  then have main: "fst (python_module_install_check reg ctx s) = Inr (warning_payload ?missing)"
    using run
    by (simp add: python_module_install_check_def warning_payload_def filter_empty_conv)
  have "?missing = []" if "\<forall>n\<in>set (map fst reg). \<exists>m. import_outcome s n = Inr m"
    using that by (auto simp: filter_empty_conv)
  then have "fst (python_module_install_check reg ctx s) = Inr None"
    if "\<forall>n\<in>set (map fst reg). \<exists>m. import_outcome s n = Inr m"
    using that main by (simp add: warning_payload_def)
  with main show ?thesis by simp
qed

lemma example_import_alpha: "import_outcome example_env ''alpha'' = Inl ImportError"
  by (simp add: import_outcome_def import_module_def example_env_def)

lemma example_import_beta:
  "import_outcome example_env ''beta'' = Inr (Module (FilePath ''/usr/local/lib/beta''))"
  by (simp add: import_outcome_def import_module_def example_env_def)

theorem python_module_install_check_payload_witness:
  "fst (python_module_install_check example_registry () example_env) = Inr (Some ''alpha -- '')"
proof -
  have decided: "\<forall>n\<in>set (map fst example_registry).
      import_outcome example_env n = Inl ImportError \<or> (\<exists>m. import_outcome example_env n = Inr m)"
    by (simp add: example_registry_def example_import_alpha example_import_beta)
  from python_module_install_check_payload [OF decided, of "()"]
  show ?thesis
    by (simp add: example_registry_def example_import_alpha example_import_beta
        warning_payload_def)
qed

section \<open>The host detector\<close>

lemma get_host_os_snd: "snd (get_host_os s) = snd (import_module ''rospkg.os_detect'' s)"
  by (simp add: get_host_os_def split: prod.splits sum.splits)

lemma is_host_os_ubuntu_fst:
  "fst (is_host_os_ubuntu s) =
     (case fst (get_host_os s) of Inl e \<Rightarrow> Inl e | Inr os_name \<Rightarrow> Inr (os_name = ''ubuntu''))"
  by (simp add: is_host_os_ubuntu_def split: prod.splits sum.splits)

lemma is_host_os_ubuntu_snd:
  "snd (is_host_os_ubuntu s) = snd (import_module ''rospkg.os_detect'' s)"
  using get_host_os_snd [of s]
  by (cases "get_host_os s") (auto simp: is_host_os_ubuntu_def split: sum.splits)

lemma import_outcome_after_detection:
  "import_outcome (snd (is_host_os_ubuntu s)) = import_outcome s"
  by (simp add: is_host_os_ubuntu_snd import_outcome_after_import)

lemma installed_after_detection:
  "is_debian_package_installed (snd (is_host_os_ubuntu s)) = is_debian_package_installed s"
  by (rule ext)
     (simp add: is_host_os_ubuntu_snd is_debian_package_installed_def subprocess_call_def
        shell_after_import)

section \<open>The Pip-Installed rule\<close>

lemma resolved_path_after_import:
  "import_outcome s' = import_outcome s \<Longrightarrow> resolved_path s' = resolved_path s"
  by (rule ext) (simp add: resolved_path_def)

lemma pip_install_loop_decided:
  assumes "\<forall>n\<in>set names. import_outcome s n = Inl ImportError \<or> (\<exists>p. resolved_path s n = Some p)"
  shows "fst (pip_install_loop names w s) =
     Inr (w @ concat (map (\<lambda>n. n @ '' -- '')
       (filter (\<lambda>n. case resolved_path s n of
                       Some p \<Rightarrow> is_a_pip_path_on_ubuntu p | None \<Rightarrow> False) names)))"
  using assms
proof (induction names arbitrary: w s)
  case Nil
  show ?case by simp
next
  case (Cons n names)
  obtain r s' where step: "is_python_package_installed_via_pip_on_ubuntu n s = (r, s')"
    by (cases "is_python_package_installed_via_pip_on_ubuntu n s")
  have s': "s' = snd (import_module n s)"
    using step via_pip_snd [of n s] by simp
  have same: "import_outcome s' = import_outcome s"
    unfolding s' by (rule import_outcome_after_import)
  have same_path: "resolved_path s' = resolved_path s"
    using same by (rule resolved_path_after_import)
  have r: "r = (case import_outcome s n of
        Inr m \<Rightarrow>
          (case file_dunder m of
             NoFileAttribute \<Rightarrow> Inl AttributeError
           | FileIsNone \<Rightarrow> Inl TypeError
           | FilePath path \<Rightarrow> Inr (is_a_pip_path_on_ubuntu path))
      | Inl e \<Rightarrow> if e = ImportError then Inr False else Inl e)"
    using step via_pip_fst [of n s] by simp
  have rest: "\<forall>k\<in>set names. import_outcome s' k = Inl ImportError \<or> (\<exists>p. resolved_path s' k = Some p)"
    using Cons.prems same same_path by simp
  from Cons.prems have "import_outcome s n = Inl ImportError \<or> (\<exists>p. resolved_path s n = Some p)"
    by simp
  then show ?case
  proof
    assume missing: "import_outcome s n = Inl ImportError"
    then have "r = Inr False" using r by simp
    moreover have "resolved_path s n = None"
      using missing by (simp add: resolved_path_def)
    ultimately show ?thesis
      using step Cons.IH [OF rest] same_path by simp
  next
    assume "\<exists>p. resolved_path s n = Some p"
    then obtain p where path: "resolved_path s n = Some p" ..
    then have "r = Inr (is_a_pip_path_on_ubuntu p)"
      using r by (auto simp: resolved_path_def split: sum.splits file_attribute.splits)
    then show ?thesis
      using step Cons.IH [OF rest] path same_path by simp
  qed
qed

text \<open>
  C2. Whenever the detector names a host other than \<^verbatim>\<open>ubuntu\<close>,
  \<^verbatim>\<open>pip_install_check_on_ubuntu\<close> returns \<^verbatim>\<open>None\<close>, whatever the imports would do.
  On \<^verbatim>\<open>ubuntu\<close>, where each registry package is either not importable or loads a
  module with a file path, it returns the payload of exactly the names whose path
  contains \<^verbatim>\<open>/usr/local\<close>, in registry order, formatted as the Missing-Modules rule
  formats its names.
\<close>

theorem pip_install_check_on_ubuntu_payload:
  "(fst (get_host_os s) = Inr os_name \<and> os_name \<noteq> ''ubuntu'' \<longrightarrow>
      fst (pip_install_check_on_ubuntu reg ctx s) = Inr None)
   \<and> (fst (get_host_os s) = Inr ''ubuntu'' \<and>
       (\<forall>n\<in>set (map fst reg).
          import_outcome s n = Inl ImportError \<or> (\<exists>p. resolved_path s n = Some p)) \<longrightarrow>
      fst (pip_install_check_on_ubuntu reg ctx s) =
        Inr (warning_payload
               (filter (\<lambda>n. case resolved_path s n of
                               Some p \<Rightarrow> is_a_pip_path_on_ubuntu p | None \<Rightarrow> False)
                  (map fst reg))))"
proof (intro conjI impI)
  assume "fst (get_host_os s) = Inr os_name \<and> os_name \<noteq> ''ubuntu''"
  then have "fst (is_host_os_ubuntu s) = Inr False"
    by (simp add: is_host_os_ubuntu_fst)
  then show "fst (pip_install_check_on_ubuntu reg ctx s) = Inr None"
    by (cases "is_host_os_ubuntu s") (simp add: pip_install_check_on_ubuntu_def)
next
  let ?conflicting = "filter (\<lambda>n. case resolved_path s n of
      Some p \<Rightarrow> is_a_pip_path_on_ubuntu p | None \<Rightarrow> False) (map fst reg)"
  assume asm: "fst (get_host_os s) = Inr ''ubuntu'' \<and>
       (\<forall>n\<in>set (map fst reg).
          import_outcome s n = Inl ImportError \<or> (\<exists>p. resolved_path s n = Some p))"
  obtain b s' where host: "is_host_os_ubuntu s = (b, s')"
    by (cases "is_host_os_ubuntu s")
  have b: "b = Inr True"
    using asm host is_host_os_ubuntu_fst [of s] by simp
  have same: "import_outcome s' = import_outcome s"
    using host import_outcome_after_detection [of s] by simp
  have same_path: "resolved_path s' = resolved_path s"
    using same by (rule resolved_path_after_import)
  have decided: "\<forall>n\<in>set (map fst reg).
      import_outcome s' n = Inl ImportError \<or> (\<exists>p. resolved_path s' n = Some p)"
    using asm same same_path by simp
  obtain r s'' where run: "pip_install_loop (map fst reg) [] s' = (r, s'')"
    by (cases "pip_install_loop (map fst reg) [] s'")
  have "r = Inr (concat (map (\<lambda>n. n @ '' -- '') ?conflicting))"
    using pip_install_loop_decided [OF decided, of "[]"] run same_path by simp
  then show "fst (pip_install_check_on_ubuntu reg ctx s) = Inr (warning_payload ?conflicting)"
    using host b run
    by (simp add: pip_install_check_on_ubuntu_def warning_payload_def filter_empty_conv)
qed

lemma example_host: "fst (get_host_os example_env) = Inr ''ubuntu''"
  by (simp add: get_host_os_def import_module_def example_env_def)

lemma example_path_alpha: "resolved_path example_env ''alpha'' = None"
  by (simp add: resolved_path_def example_import_alpha)

lemma example_path_beta: "resolved_path example_env ''beta'' = Some ''/usr/local/lib/beta''"
  by (simp add: resolved_path_def example_import_beta)

lemma example_host_debian: "fst (get_host_os example_env_debian) = Inr ''debian''"
  by (simp add: get_host_os_def import_module_def example_env_debian_def example_env_def)

theorem pip_install_check_on_ubuntu_payload_witness:
  "fst (pip_install_check_on_ubuntu example_registry () example_env) = Inr (Some ''beta -- '')
   \<and> fst (pip_install_check_on_ubuntu example_registry () example_env_debian) = Inr None"
proof
  have decided: "\<forall>n\<in>set (map fst example_registry).
      import_outcome example_env n = Inl ImportError \<or> (\<exists>p. resolved_path example_env n = Some p)"
    by (simp add: example_registry_def example_import_alpha example_path_beta)
  have pip: "is_a_pip_path_on_ubuntu ''/usr/local/lib/beta''"
    by (simp add: is_a_pip_path_on_ubuntu_def)
  from pip_install_check_on_ubuntu_payload [of example_env "''ubuntu''" example_registry "()"]
    example_host decided
  show "fst (pip_install_check_on_ubuntu example_registry () example_env) = Inr (Some ''beta -- '')"
    by (simp add: example_registry_def example_path_alpha example_path_beta pip
        warning_payload_def)
next
  have "''debian'' \<noteq> ''ubuntu''" by simp
  with pip_install_check_on_ubuntu_payload
    [of example_env_debian "''debian''" example_registry "()"] example_host_debian
  show "fst (pip_install_check_on_ubuntu example_registry () example_env_debian) = Inr None"
    by blast
qed

section \<open>The Missing-Native-Packages rule\<close>

lemma deb_install_loop_pairs:
  assumes "\<forall>(py_pkg, deb_pkg)\<in>set pairs. map_of reg py_pkg = Some deb_pkg"
  shows "deb_install_loop reg (map fst pairs) w s =
     Inr (w @ concat (map (\<lambda>(py_pkg, deb_pkg). py_pkg @ '' ('' @ deb_pkg @ '') -- '')
       (filter (\<lambda>(py_pkg, deb_pkg). \<not> is_debian_package_installed s deb_pkg) pairs)))"
  using assms
proof (induction pairs arbitrary: w)
  case Nil
  show ?case by simp
next
  case (Cons pair pairs)
  obtain py_pkg deb_pkg where pair: "pair = (py_pkg, deb_pkg)"
    by (cases pair)
  have lookup: "map_of reg py_pkg = Some deb_pkg"
    using Cons.prems pair by simp
  have rest: "\<forall>(py_pkg, deb_pkg)\<in>set pairs. map_of reg py_pkg = Some deb_pkg"
    using Cons.prems by simp
  show ?case
    using Cons.IH [OF rest] lookup pair by simp
qed

lemma deb_payload_items:
  "concat (map (\<lambda>(py_pkg, deb_pkg). py_pkg @ '' ('' @ deb_pkg @ '') -- '') pairs) =
   concat (map (\<lambda>item. item @ '' -- '')
     (map (\<lambda>(py_pkg, deb_pkg). py_pkg @ '' ('' @ deb_pkg @ '')'') pairs))"
  by (induction pairs) (auto simp: case_prod_beta)

text \<open>
  C3. Whenever the detector names a host other than \<^verbatim>\<open>ubuntu\<close>,
  \<^verbatim>\<open>deb_install_check_on_ubuntu\<close> returns \<^verbatim>\<open>None\<close>. On \<^verbatim>\<open>ubuntu\<close>, for every
  registry (a dictionary: no key twice), it returns the payload made of
  \<^verbatim>\<open>"<logical name> (<native name>)"\<close> for exactly the pairs whose \<^verbatim>\<open>dpkg -l\<close>
  query exits non-zero, in registry order, each followed by \<^verbatim>\<open>" -- "\<close>, and
  \<^verbatim>\<open>None\<close> when every query exits with zero.
\<close>

theorem deb_install_check_on_ubuntu_payload:
  "(fst (get_host_os s) = Inr os_name \<and> os_name \<noteq> ''ubuntu'' \<longrightarrow>
      fst (deb_install_check_on_ubuntu reg ctx s) = Inr None)
   \<and> (fst (get_host_os s) = Inr ''ubuntu'' \<and> distinct (map fst reg) \<longrightarrow>
      fst (deb_install_check_on_ubuntu reg ctx s) =
        Inr (warning_payload
               (map (\<lambda>(py_pkg, deb_pkg). py_pkg @ '' ('' @ deb_pkg @ '')'')
                  (filter (\<lambda>(py_pkg, deb_pkg). subprocess_call s (''dpkg -l '' @ deb_pkg) \<noteq> 0)
                     reg))))
   \<and> (fst (get_host_os s) = Inr ''ubuntu'' \<and> distinct (map fst reg) \<and>
       (\<forall>(py_pkg, deb_pkg)\<in>set reg. subprocess_call s (''dpkg -l '' @ deb_pkg) = 0) \<longrightarrow>
      fst (deb_install_check_on_ubuntu reg ctx s) = Inr None)"
proof -
  let ?missing = "filter (\<lambda>(py_pkg, deb_pkg). subprocess_call s (''dpkg -l '' @ deb_pkg) \<noteq> 0) reg"
  let ?items = "map (\<lambda>(py_pkg, deb_pkg). py_pkg @ '' ('' @ deb_pkg @ '')'') ?missing"
  have other: "fst (deb_install_check_on_ubuntu reg ctx s) = Inr None"
    if "fst (get_host_os s) = Inr os_name \<and> os_name \<noteq> ''ubuntu''"
  proof -
    have "fst (is_host_os_ubuntu s) = Inr False"
      using that by (simp add: is_host_os_ubuntu_fst)
    then show ?thesis
      by (cases "is_host_os_ubuntu s") (simp add: deb_install_check_on_ubuntu_def)
  qed
  have ubuntu: "fst (deb_install_check_on_ubuntu reg ctx s) = Inr (warning_payload ?items)"
    if "fst (get_host_os s) = Inr ''ubuntu'' \<and> distinct (map fst reg)"
  proof -
    obtain b s' where host: "is_host_os_ubuntu s = (b, s')"
      by (cases "is_host_os_ubuntu s")
    have b: "b = Inr True"
      using that host is_host_os_ubuntu_fst [of s] by simp
    have same: "is_debian_package_installed s' = is_debian_package_installed s"
      using host installed_after_detection [of s] by simp
    have "\<forall>(py_pkg, deb_pkg)\<in>set reg. map_of reg py_pkg = Some deb_pkg"
      using that by auto
    then have "deb_install_loop reg (map fst reg) [] s' =
        Inr (concat (map (\<lambda>(py_pkg, deb_pkg). py_pkg @ '' ('' @ deb_pkg @ '') -- '')
          (filter (\<lambda>(py_pkg, deb_pkg). \<not> is_debian_package_installed s' deb_pkg) reg)))"
      using deb_install_loop_pairs [of reg reg "[]" s'] by simp
    also have "filter (\<lambda>(py_pkg, deb_pkg). \<not> is_debian_package_installed s' deb_pkg) reg = ?missing"
      by (simp add: same is_debian_package_installed_def)
    finally have "deb_install_loop reg (map fst reg) [] s' =
        Inr (concat (map (\<lambda>item. item @ '' -- '') ?items))"
      by (simp only: deb_payload_items)
    then show ?thesis
      using host b
      by (auto simp: deb_install_check_on_ubuntu_def warning_payload_def filter_empty_conv)
  qed
  have none: "fst (deb_install_check_on_ubuntu reg ctx s) = Inr None"
    if "fst (get_host_os s) = Inr ''ubuntu'' \<and> distinct (map fst reg) \<and>
       (\<forall>(py_pkg, deb_pkg)\<in>set reg. subprocess_call s (''dpkg -l '' @ deb_pkg) = 0)"
  proof -
    have "?missing = []"
      using that by (auto simp: filter_empty_conv)
    then show ?thesis
      using ubuntu that by (simp add: warning_payload_def)
  qed
  from other ubuntu none show ?thesis by blast
qed

lemma example_dpkg_alpha: "subprocess_call example_env ''dpkg -l python-alpha'' = 1"
  by (simp add: subprocess_call_def example_env_def)

lemma example_dpkg_beta: "subprocess_call example_env ''dpkg -l python-beta'' = 0"
  by (simp add: subprocess_call_def example_env_def)

theorem deb_install_check_on_ubuntu_payload_witness:
  "fst (deb_install_check_on_ubuntu example_registry () example_env) =
     Inr (Some ''alpha (python-alpha) -- '')
   \<and> fst (deb_install_check_on_ubuntu example_registry () example_env_debian) = Inr None
   \<and> fst (deb_install_check_on_ubuntu [(''beta'', ''python-beta'')] () example_env) = Inr None"
proof (intro conjI)
  have keys: "distinct (map fst example_registry)"
    by (simp add: example_registry_def)
  from deb_install_check_on_ubuntu_payload [of example_env "''ubuntu''" example_registry "()"]
    example_host keys
  show "fst (deb_install_check_on_ubuntu example_registry () example_env) =
      Inr (Some ''alpha (python-alpha) -- '')"
    by (simp add: example_registry_def example_dpkg_alpha example_dpkg_beta warning_payload_def)
next
  have "''debian'' \<noteq> ''ubuntu''" by simp
  with deb_install_check_on_ubuntu_payload
    [of example_env_debian "''debian''" example_registry "()"] example_host_debian
  show "fst (deb_install_check_on_ubuntu example_registry () example_env_debian) = Inr None"
    by blast
next
  have "distinct (map fst [(''beta'', ''python-beta'')])" by simp
  moreover have "\<forall>(py_pkg, deb_pkg)\<in>set [(''beta'', ''python-beta'')].
      subprocess_call example_env (''dpkg -l '' @ deb_pkg) = 0"
    using example_dpkg_beta by simp
  ultimately
  show "fst (deb_install_check_on_ubuntu [(''beta'', ''python-beta'')] () example_env) = Inr None"
    using deb_install_check_on_ubuntu_payload
      [of example_env "''ubuntu''" "[(''beta'', ''python-beta'')]" "()"] example_host
    by blast
qed

section \<open>The conflict variant of the import predicate\<close>

text \<open>
  C6. For every package name, \<^verbatim>\<open>is_python_package_installed_via_pip_on_ubuntu\<close>
  returns false when the import fails to load the module (ImportError), and when the
  import loads a module it returns what \<^verbatim>\<open>is_a_pip_path_on_ubuntu\<close> says of the
  module's file path.
\<close>

theorem via_pip_load_outcomes:
  "(import_outcome s python_pkg = Inl ImportError \<longrightarrow>
      fst (is_python_package_installed_via_pip_on_ubuntu python_pkg s) = Inr False)
   \<and> (import_outcome s python_pkg = Inr pkg_handle \<and> file_dunder pkg_handle = FilePath path \<longrightarrow>
      fst (is_python_package_installed_via_pip_on_ubuntu python_pkg s) =
        Inr (is_a_pip_path_on_ubuntu path))"
  by (simp add: via_pip_fst)

theorem via_pip_load_outcomes_witness:
  "fst (is_python_package_installed_via_pip_on_ubuntu ''alpha'' example_env) = Inr False
   \<and> fst (is_python_package_installed_via_pip_on_ubuntu ''beta'' example_env) = Inr True"
proof
  from via_pip_load_outcomes [of example_env "''alpha''"] example_import_alpha
  show "fst (is_python_package_installed_via_pip_on_ubuntu ''alpha'' example_env) = Inr False"
    by blast
next
  have "is_a_pip_path_on_ubuntu ''/usr/local/lib/beta''"
    by (simp add: is_a_pip_path_on_ubuntu_def)
  moreover have "file_dunder (Module (FilePath ''/usr/local/lib/beta'')) = FilePath ''/usr/local/lib/beta''"
    by simp
  ultimately
  show "fst (is_python_package_installed_via_pip_on_ubuntu ''beta'' example_env) = Inr True"
    using via_pip_load_outcomes
      [of example_env "''beta''" "Module (FilePath ''/usr/local/lib/beta'')" "''/usr/local/lib/beta''"]
      example_import_beta
    by simp
qed

section \<open>Predicates in states with the same imports\<close>

lemma is_python_package_installed_same_world:
  "import_outcome s' = import_outcome s \<Longrightarrow>
   fst (is_python_package_installed name s') = fst (is_python_package_installed name s)"
  by (simp add: is_python_package_installed_fst)

lemma via_pip_same_world:
  "import_outcome s' = import_outcome s \<Longrightarrow>
   fst (is_python_package_installed_via_pip_on_ubuntu name s') =
   fst (is_python_package_installed_via_pip_on_ubuntu name s)"
  by (simp add: via_pip_fst)

section \<open>Failure of the host detector\<close>

lemma get_host_os_fst:
  "fst (get_host_os s) =
     (case import_outcome s ''rospkg.os_detect'' of
        Inl e \<Rightarrow> Inl e
      | Inr m \<Rightarrow> (case detect_os s of Inl e \<Rightarrow> Inl e | Inr names \<Rightarrow> Inr (fst names)))"
  using detect_os_after_import [of "''rospkg.os_detect''" s]
  by (cases "import_module ''rospkg.os_detect'' s")
     (auto simp: get_host_os_def import_outcome_def split: sum.splits prod.splits)

lemma python_module_install_loop_world:
  "import_outcome (snd (python_module_install_loop names w s)) = import_outcome s
   \<and> detect_os (snd (python_module_install_loop names w s)) = detect_os s"
proof (induction names arbitrary: w s)
  case Nil
  show ?case by simp
next
  case (Cons n names)
  obtain r s' where step: "is_python_package_installed n s = (r, s')"
    by (cases "is_python_package_installed n s")
  have s': "s' = snd (import_module n s)"
    using step is_python_package_installed_snd [of n s] by simp
  have world: "import_outcome s' = import_outcome s \<and> detect_os s' = detect_os s"
    unfolding s' by (simp add: import_outcome_after_import detect_os_after_import)
  show ?case
  proof (cases r)
    case (Inl e)
    with step world show ?thesis by simp
  next
    case (Inr installed)
    with step world Cons.IH [of _ s'] show ?thesis by simp
  qed
qed

lemma python_module_install_check_snd:
  "snd (python_module_install_check reg ctx s) =
   snd (python_module_install_loop (map fst reg) [] s)"
  by (simp add: python_module_install_check_def split: prod.splits sum.splits)

lemma get_host_os_after_missing_modules_rule:
  "fst (get_host_os (snd (python_module_install_check reg ctx s))) = fst (get_host_os s)"
proof -
  let ?s' = "snd (python_module_install_loop (map fst reg) [] s)"
  have outcome: "import_outcome ?s' = import_outcome s" and detector: "detect_os ?s' = detect_os s"
    using python_module_install_loop_world [of "map fst reg" "[]" s] by simp_all
  show ?thesis
    by (simp only: get_host_os_fst python_module_install_check_snd outcome detector)
qed

lemma pip_rule_detection_failure:
  "fst (get_host_os s) = Inl e \<Longrightarrow> fst (pip_install_check_on_ubuntu reg ctx s) = Inl e"
proof -
  assume "fst (get_host_os s) = Inl e"
  then have "fst (is_host_os_ubuntu s) = Inl e"
    by (simp add: is_host_os_ubuntu_fst)
  then show ?thesis
    by (cases "is_host_os_ubuntu s") (simp add: pip_install_check_on_ubuntu_def)
qed

lemma deb_rule_detection_failure:
  "fst (get_host_os s) = Inl e \<Longrightarrow> fst (deb_install_check_on_ubuntu reg ctx s) = Inl e"
proof -
  assume "fst (get_host_os s) = Inl e"
  then have "fst (is_host_os_ubuntu s) = Inl e"
    by (simp add: is_host_os_ubuntu_fst)
  then show ?thesis
    by (cases "is_host_os_ubuntu s") (simp add: deb_install_check_on_ubuntu_def)
qed

lemma get_host_os_at_first_rule:
  "fst (get_host_os (state_at_first_rule s)) = fst (get_host_os s)"
  by (simp only: get_host_os_fst state_at_first_rule_def import_outcome_after_import
      detect_os_after_import)

lemma wtf_check_detection_failure:
  assumes "fst (get_host_os s) = Inl e"
  shows "fst (wtf_check reg ctx s calls) =
     (case import_outcome s ''roswtf.rules'' of
        Inl e' \<Rightarrow> Inl e'
      | Inr rules \<Rightarrow>
          (case fst (python_module_install_check reg ctx (state_at_first_rule s)) of
             Inl e' \<Rightarrow> Inl e'
           | Inr ret \<Rightarrow> Inl e))"
proof -
  obtain i s0 where imported: "import_module ''roswtf.rules'' s = (i, s0)"
    by (cases "import_module ''roswtf.rules'' s")
  have outcome: "import_outcome s ''roswtf.rules'' = i"
    using imported by (simp add: import_outcome_def)
  have s0: "state_at_first_rule s = s0"
    using imported by (simp add: state_at_first_rule_def)
  show ?thesis
  proof (cases i)
    case (Inl e')
    with imported outcome show ?thesis
      by (simp add: wtf_check_def)
  next
    case rules: (Inr m)
    obtain r s1 where first: "python_module_install_check reg ctx s0 = (r, s1)"
      by (cases "python_module_install_check reg ctx s0")
    show ?thesis
    proof (cases r)
      case (Inl e')
      with imported outcome rules first s0 show ?thesis
        by (simp add: wtf_check_def warnings_def)
    next
      case (Inr ret)
      have "fst (get_host_os s0) = Inl e"
        using assms get_host_os_at_first_rule [of s] s0 by simp
      then have "fst (get_host_os s1) = Inl e"
        using first get_host_os_after_missing_modules_rule [of reg ctx s0] by simp
      then have "fst (pip_install_check_on_ubuntu reg ctx s1) = Inl e"
        by (rule pip_rule_detection_failure)
      then obtain s2 where "pip_install_check_on_ubuntu reg ctx s1 = (Inl e, s2)"
        by (cases "pip_install_check_on_ubuntu reg ctx s1") simp
      with imported outcome rules first Inr s0 show ?thesis
        by (simp add: wtf_check_def warnings_def)
    qed
  qed
qed

text \<open>
  C7. When the detector of \<^verbatim>\<open>rospkg\<close> fails, \<^verbatim>\<open>get_host_os\<close> raises its exception,
  and whatever \<^verbatim>\<open>get_host_os\<close> raises is raised again by \<^verbatim>\<open>is_host_os_ubuntu\<close>, by
  \<^verbatim>\<open>pip_install_check_on_ubuntu\<close> and by \<^verbatim>\<open>deb_install_check_on_ubuntu\<close>: none of
  them answers "not the target distribution". The whole of \<^verbatim>\<open>wtf_check\<close> then ends in
  an exception too: that of its own import of \<^verbatim>\<open>roswtf.rules\<close> or of the
  Missing-Modules rule if one of them raises, else the detector's.
\<close>

theorem detection_failure_propagates:
  "(import_outcome s ''rospkg.os_detect'' = Inr m \<and> detect_os s = Inl e \<longrightarrow>
      fst (get_host_os s) = Inl e)
   \<and> (fst (get_host_os s) = Inl e \<longrightarrow>
        fst (is_host_os_ubuntu s) = Inl e
        \<and> fst (pip_install_check_on_ubuntu reg ctx s) = Inl e
        \<and> fst (deb_install_check_on_ubuntu reg ctx s) = Inl e
        \<and> fst (wtf_check reg ctx s calls) =
            (case import_outcome s ''roswtf.rules'' of
               Inl e' \<Rightarrow> Inl e'
             | Inr rules \<Rightarrow>
                 (case fst (python_module_install_check reg ctx (state_at_first_rule s)) of
                    Inl e' \<Rightarrow> Inl e'
                  | Inr ret \<Rightarrow> Inl e)))"
proof (intro conjI impI)
  assume "import_outcome s ''rospkg.os_detect'' = Inr m \<and> detect_os s = Inl e"
  then show "fst (get_host_os s) = Inl e"
    by (simp add: get_host_os_fst)
next
  assume "fst (get_host_os s) = Inl e"
  then show "fst (is_host_os_ubuntu s) = Inl e"
    by (simp add: is_host_os_ubuntu_fst)
next
  assume "fst (get_host_os s) = Inl e"
  then show "fst (pip_install_check_on_ubuntu reg ctx s) = Inl e"
    by (rule pip_rule_detection_failure)
next
  assume "fst (get_host_os s) = Inl e"
  then show "fst (deb_install_check_on_ubuntu reg ctx s) = Inl e"
    by (rule deb_rule_detection_failure)
next
  assume "fst (get_host_os s) = Inl e"
  then show "fst (wtf_check reg ctx s calls) =
      (case import_outcome s ''roswtf.rules'' of
         Inl e' \<Rightarrow> Inl e'
       | Inr rules \<Rightarrow>
           (case fst (python_module_install_check reg ctx (state_at_first_rule s)) of
              Inl e' \<Rightarrow> Inl e'
            | Inr ret \<Rightarrow> Inl e))"
    by (rule wtf_check_detection_failure)
qed

lemma example_undetected_import:
  "import_outcome example_env_undetected ''rospkg.os_detect'' =
     Inr (Module (FilePath ''/usr/lib/os_detect.py''))"
  by (simp add: import_outcome_def import_module_def example_env_undetected_def example_env_def)

lemma example_undetected_rules:
  "import_outcome example_env_undetected ''roswtf.rules'' =
     Inr (Module (FilePath ''/opt/ros/roswtf/rules.py''))"
  by (simp add: import_outcome_def import_module_def example_env_undetected_def example_env_def)

lemma example_undetected_missing_modules:
  "fst (python_module_install_check example_registry ()
     (state_at_first_rule example_env_undetected)) = Inr (Some ''alpha -- '')"
  by (simp add: python_module_install_check_def example_registry_def state_at_first_rule_def
      is_python_package_installed_def import_module_def example_env_undetected_def
      example_env_def)

theorem detection_failure_propagates_witness:
  "fst (get_host_os example_env_undetected) = Inl OsNotDetected
   \<and> fst (is_host_os_ubuntu example_env_undetected) = Inl OsNotDetected
   \<and> fst (pip_install_check_on_ubuntu example_registry () example_env_undetected) =
       Inl OsNotDetected
   \<and> fst (deb_install_check_on_ubuntu example_registry () example_env_undetected) =
       Inl OsNotDetected
   \<and> fst (wtf_check example_registry () example_env_undetected []) = Inl OsNotDetected"
proof -
  have detector: "import_outcome example_env_undetected ''rospkg.os_detect'' =
        Inr (Module (FilePath ''/usr/lib/os_detect.py''))
      \<and> detect_os example_env_undetected = Inl OsNotDetected"
    by (simp add: example_undetected_import) (simp add: example_env_undetected_def)
  note all = detection_failure_propagates
    [of example_env_undetected "Module (FilePath ''/usr/lib/os_detect.py'')" OsNotDetected
       example_registry "()" "[]"]
  from all detector have host: "fst (get_host_os example_env_undetected) = Inl OsNotDetected"
    by blast
  with all show ?thesis
    by (simp add: example_undetected_missing_modules example_undetected_rules)
qed

section \<open>Exceptions other than ImportError\<close>

lemma python_module_install_loop_first_failure:
  assumes "\<forall>k\<in>set pre. \<exists>b. fst (is_python_package_installed k s) = Inr b"
    and "fst (is_python_package_installed n s) = Inl e"
  shows "fst (python_module_install_loop (pre @ n # post) w s) = Inl e"
  using assms
proof (induction pre arbitrary: w s)
  case Nil
  then show ?case
    by (cases "is_python_package_installed n s") simp
next
  case (Cons k pre)
  obtain r s' where step: "is_python_package_installed k s = (r, s')"
    by (cases "is_python_package_installed k s")
  from Cons.prems(1) step obtain b where r: "r = Inr b"
    by auto
  have "s' = snd (import_module k s)"
    using step is_python_package_installed_snd [of k s] by simp
  then have same: "import_outcome s' = import_outcome s"
    by (simp add: import_outcome_after_import)
  have rest: "\<forall>j\<in>set pre. \<exists>b. fst (is_python_package_installed j s') = Inr b"
    using Cons.prems(1) is_python_package_installed_same_world [OF same] by simp
  have offender: "fst (is_python_package_installed n s') = Inl e"
    using Cons.prems(2) is_python_package_installed_same_world [OF same] by simp
  show ?case
    using step r Cons.IH [OF rest offender] by simp
qed

lemma pip_install_loop_first_failure:
  assumes "\<forall>k\<in>set pre. \<exists>b. fst (is_python_package_installed_via_pip_on_ubuntu k s) = Inr b"
    and "fst (is_python_package_installed_via_pip_on_ubuntu n s) = Inl e"
  shows "fst (pip_install_loop (pre @ n # post) w s) = Inl e"
  using assms
proof (induction pre arbitrary: w s)
  case Nil
  then show ?case
    by (cases "is_python_package_installed_via_pip_on_ubuntu n s") simp
next
  case (Cons k pre)
  obtain r s' where step: "is_python_package_installed_via_pip_on_ubuntu k s = (r, s')"
    by (cases "is_python_package_installed_via_pip_on_ubuntu k s")
  from Cons.prems(1) step obtain b where r: "r = Inr b"
    by auto
  have "s' = snd (import_module k s)"
    using step via_pip_snd [of k s] by simp
  then have same: "import_outcome s' = import_outcome s"
    by (simp add: import_outcome_after_import)
  have rest: "\<forall>j\<in>set pre. \<exists>b. fst (is_python_package_installed_via_pip_on_ubuntu j s') = Inr b"
    using Cons.prems(1) via_pip_same_world [OF same] by simp
  have offender: "fst (is_python_package_installed_via_pip_on_ubuntu n s') = Inl e"
    using Cons.prems(2) via_pip_same_world [OF same] by simp
  show ?case
    using step r Cons.IH [OF rest offender] by simp
qed

lemma missing_modules_rule_first_failure:
  assumes "reg = before @ (name, deb_pkg) # after"
    and "\<forall>k\<in>set (map fst before). \<exists>b. fst (is_python_package_installed k s) = Inr b"
    and "fst (is_python_package_installed name s) = Inl e"
  shows "fst (python_module_install_check reg ctx s) = Inl e"
proof -
  have "fst (python_module_install_loop (map fst before @ name # map fst after) [] s) = Inl e"
    using assms(2,3) by (rule python_module_install_loop_first_failure)
  then show ?thesis
    unfolding assms(1)
    by (cases "python_module_install_loop (map fst before @ name # map fst after) [] s")
       (simp add: python_module_install_check_def)
qed

lemma pip_rule_first_failure:
  assumes "fst (get_host_os s) = Inr ''ubuntu''"
    and "reg = before @ (name, deb_pkg) # after"
    and "\<forall>k\<in>set (map fst before).
           \<exists>b. fst (is_python_package_installed_via_pip_on_ubuntu k s) = Inr b"
    and "fst (is_python_package_installed_via_pip_on_ubuntu name s) = Inl e"
  shows "fst (pip_install_check_on_ubuntu reg ctx s) = Inl e"
proof -
  obtain b s' where host: "is_host_os_ubuntu s = (b, s')"
    by (cases "is_host_os_ubuntu s")
  have b: "b = Inr True"
    using assms(1) host is_host_os_ubuntu_fst [of s] by simp
  have same: "import_outcome s' = import_outcome s"
    using host import_outcome_after_detection [of s] by simp
  have rest: "\<forall>k\<in>set (map fst before).
      \<exists>b. fst (is_python_package_installed_via_pip_on_ubuntu k s') = Inr b"
    using assms(3) via_pip_same_world [OF same] by simp
  have offender: "fst (is_python_package_installed_via_pip_on_ubuntu name s') = Inl e"
    using assms(4) via_pip_same_world [OF same] by simp
  have "fst (pip_install_loop (map fst before @ name # map fst after) [] s') = Inl e"
    using rest offender by (rule pip_install_loop_first_failure)
  then show ?thesis
    unfolding assms(2) using host b
    by (cases "pip_install_loop (map fst before @ name # map fst after) [] s'")
       (simp add: pip_install_check_on_ubuntu_def)
qed

text \<open>
  C10. The two import predicates turn ImportError, and nothing else, into a boolean:
  neither ever raises ImportError; an import that raises another exception makes both
  raise that exception; a module loaded without \<^verbatim>\<open>__file__\<close>, or with
  \<^verbatim>\<open>__file__\<close> set to \<^verbatim>\<open>None\<close>, makes the conflict variant raise AttributeError or
  TypeError. The exception of the first registry package for which the predicate raises
  is the result of the enclosing rule (of the Pip-Installed rule on \<^verbatim>\<open>ubuntu\<close>, where
  it runs the predicate at all).
\<close>

theorem import_predicates_catch_only_ImportError:
  "fst (is_python_package_installed name s) \<noteq> Inl ImportError
   \<and> fst (is_python_package_installed_via_pip_on_ubuntu name s) \<noteq> Inl ImportError
   \<and> (import_outcome s name = Inl e \<and> e \<noteq> ImportError \<longrightarrow>
        fst (is_python_package_installed name s) = Inl e
        \<and> fst (is_python_package_installed_via_pip_on_ubuntu name s) = Inl e)
   \<and> (import_outcome s name = Inr m \<and> file_dunder m = NoFileAttribute \<longrightarrow>
        fst (is_python_package_installed_via_pip_on_ubuntu name s) = Inl AttributeError)
   \<and> (import_outcome s name = Inr m \<and> file_dunder m = FileIsNone \<longrightarrow>
        fst (is_python_package_installed_via_pip_on_ubuntu name s) = Inl TypeError)
   \<and> (reg = before @ (name, deb_pkg) # after
        \<and> (\<forall>k\<in>set (map fst before). \<exists>b. fst (is_python_package_installed k s) = Inr b)
        \<and> fst (is_python_package_installed name s) = Inl e \<longrightarrow>
        fst (python_module_install_check reg ctx s) = Inl e)
   \<and> (fst (get_host_os s) = Inr ''ubuntu''
        \<and> reg = before @ (name, deb_pkg) # after
        \<and> (\<forall>k\<in>set (map fst before).
              \<exists>b. fst (is_python_package_installed_via_pip_on_ubuntu k s) = Inr b)
        \<and> fst (is_python_package_installed_via_pip_on_ubuntu name s) = Inl e \<longrightarrow>
        fst (pip_install_check_on_ubuntu reg ctx s) = Inl e)"
proof (intro conjI impI)
  show "fst (is_python_package_installed name s) \<noteq> Inl ImportError"
    by (simp add: is_python_package_installed_fst split: sum.splits)
  show "fst (is_python_package_installed_via_pip_on_ubuntu name s) \<noteq> Inl ImportError"
    by (simp add: via_pip_fst split: sum.splits file_attribute.splits)
next
  assume "import_outcome s name = Inl e \<and> e \<noteq> ImportError"
  then show "fst (is_python_package_installed name s) = Inl e"
    by (simp add: is_python_package_installed_fst)
next
  assume "import_outcome s name = Inl e \<and> e \<noteq> ImportError"
  then show "fst (is_python_package_installed_via_pip_on_ubuntu name s) = Inl e"
    by (simp add: via_pip_fst)
next
  assume "import_outcome s name = Inr m \<and> file_dunder m = NoFileAttribute"
  then show "fst (is_python_package_installed_via_pip_on_ubuntu name s) = Inl AttributeError"
    by (simp add: via_pip_fst)
next
  assume "import_outcome s name = Inr m \<and> file_dunder m = FileIsNone"
  then show "fst (is_python_package_installed_via_pip_on_ubuntu name s) = Inl TypeError"
    by (simp add: via_pip_fst)
next
  assume "reg = before @ (name, deb_pkg) # after
      \<and> (\<forall>k\<in>set (map fst before). \<exists>b. fst (is_python_package_installed k s) = Inr b)
      \<and> fst (is_python_package_installed name s) = Inl e"
  then show "fst (python_module_install_check reg ctx s) = Inl e"
    using missing_modules_rule_first_failure [of reg before name deb_pkg after s e ctx]
    by blast
next
  assume "fst (get_host_os s) = Inr ''ubuntu''
      \<and> reg = before @ (name, deb_pkg) # after
      \<and> (\<forall>k\<in>set (map fst before).
            \<exists>b. fst (is_python_package_installed_via_pip_on_ubuntu k s) = Inr b)
      \<and> fst (is_python_package_installed_via_pip_on_ubuntu name s) = Inl e"
  then show "fst (pip_install_check_on_ubuntu reg ctx s) = Inl e"
    using pip_rule_first_failure [of s reg before name deb_pkg after e ctx]
    by blast
qed

lemma example_broken_import_alpha:
  "import_outcome example_env_broken ''alpha'' = Inl (OtherException ''SyntaxError'')"
  by (simp add: import_outcome_def import_module_def example_env_broken_def example_env_def)

lemma example_no_file_import_alpha: "import_outcome example_env_no_file ''alpha'' = Inl ImportError"
  by (simp add: import_outcome_def import_module_def example_env_no_file_def example_env_def)

lemma example_no_file_import_beta:
  "import_outcome example_env_no_file ''beta'' = Inr (Module NoFileAttribute)"
  by (simp add: import_outcome_def import_module_def example_env_no_file_def example_env_def)

lemma example_no_file_host: "fst (get_host_os example_env_no_file) = Inr ''ubuntu''"
  by (simp add: get_host_os_def import_module_def example_env_no_file_def example_env_def)

theorem import_predicates_catch_only_ImportError_witness:
  "fst (is_python_package_installed ''alpha'' example_env_broken) =
     Inl (OtherException ''SyntaxError'')
   \<and> fst (python_module_install_check example_registry () example_env_broken) =
     Inl (OtherException ''SyntaxError'')
   \<and> fst (is_python_package_installed_via_pip_on_ubuntu ''beta'' example_env_no_file) =
     Inl AttributeError
   \<and> fst (pip_install_check_on_ubuntu example_registry () example_env_no_file) =
     Inl AttributeError"
proof -
  note broken = import_predicates_catch_only_ImportError
    [of "''alpha''" example_env_broken "OtherException ''SyntaxError''" _ example_registry
       "[]" "''python-alpha''" "[(''beta'', ''python-beta'')]" "()"]
  have "import_outcome example_env_broken ''alpha'' = Inl (OtherException ''SyntaxError'')
      \<and> OtherException ''SyntaxError'' \<noteq> ImportError"
    by (simp add: example_broken_import_alpha)
  with broken
  have plain: "fst (is_python_package_installed ''alpha'' example_env_broken) =
      Inl (OtherException ''SyntaxError'')"
    by blast
  have "example_registry = [] @ (''alpha'', ''python-alpha'') # [(''beta'', ''python-beta'')]
      \<and> (\<forall>k\<in>set (map fst []). \<exists>b. fst (is_python_package_installed k example_env_broken) = Inr b)"
    by (simp add: example_registry_def)
  with broken plain
  have rule: "fst (python_module_install_check example_registry () example_env_broken) =
      Inl (OtherException ''SyntaxError'')"
    by blast
  note no_file = import_predicates_catch_only_ImportError
    [of "''beta''" example_env_no_file AttributeError "Module NoFileAttribute" example_registry
       "[(''alpha'', ''python-alpha'')]" "''python-beta''" "[]" "()"]
  have "import_outcome example_env_no_file ''beta'' = Inr (Module NoFileAttribute)
      \<and> file_dunder (Module NoFileAttribute) = NoFileAttribute"
    by (simp add: example_no_file_import_beta)
  with no_file
  have conflict: "fst (is_python_package_installed_via_pip_on_ubuntu ''beta'' example_env_no_file) =
      Inl AttributeError"
    by blast
  have "example_registry = [(''alpha'', ''python-alpha'')] @ (''beta'', ''python-beta'') # []
      \<and> (\<forall>k\<in>set (map fst [(''alpha'', ''python-alpha'')]).
            \<exists>b. fst (is_python_package_installed_via_pip_on_ubuntu k example_env_no_file) = Inr b)"
    by (auto simp: example_registry_def via_pip_fst example_no_file_import_alpha)
  with no_file conflict example_no_file_host
  have gated: "fst (pip_install_check_on_ubuntu example_registry () example_env_no_file) =
      Inl AttributeError"
    by blast
  from plain rule conflict gated show ?thesis by simp
qed

section \<open>The calls of the dispatcher\<close>

text \<open>
  C8. The warning list of \<^verbatim>\<open>wtf_check\<close> holds the Missing-Modules rule, the
  Pip-Installed rule and the Missing-Native-Packages rule, in this order, and the error
  list is empty. When \<^verbatim>\<open>roswtf.rules\<close> is imported and each rule returns, run in the
  state its predecessor left, \<^verbatim>\<open>wtf_check\<close> hands the framework exactly three calls
  of \<^verbatim>\<open>warning_rule\<close>, in list order, each with the list entry, the result of its
  rule on the context, and the context; it makes no call of \<^verbatim>\<open>error_rule\<close> and
  returns nothing (\<open>()\<close>).
\<close>

theorem wtf_check_dispatch:
  "map fst (warnings reg :: ('ctx rule \<times> string) list) =
     [python_module_install_check reg, pip_install_check_on_ubuntu reg,
      deb_install_check_on_ubuntu reg]
   \<and> (errors reg :: ('ctx rule \<times> string) list) = []
   \<and> (import_outcome s ''roswtf.rules'' = Inr rules
      \<and> fst (python_module_install_check reg ctx (state_at_first_rule s)) = Inr ret1
      \<and> fst (pip_install_check_on_ubuntu reg ctx (state_at_second_rule reg ctx s)) = Inr ret2
      \<and> fst (deb_install_check_on_ubuntu reg ctx (state_at_third_rule reg ctx s)) = Inr ret3 \<longrightarrow>
      wtf_check reg ctx s calls =
        (Inr (), state_at_end reg ctx s,
         calls @ [Warning_rule (warnings reg ! 0) ret1 ctx,
                  Warning_rule (warnings reg ! 1) ret2 ctx,
                  Warning_rule (warnings reg ! 2) ret3 ctx]))"
proof (intro conjI impI)
  show "map fst (warnings reg :: ('ctx rule \<times> string) list) =
     [python_module_install_check reg, pip_install_check_on_ubuntu reg,
      deb_install_check_on_ubuntu reg]"
    by (simp add: warnings_def)
  show "(errors reg :: ('ctx rule \<times> string) list) = []"
    by (simp add: errors_def)
next
  assume "import_outcome s ''roswtf.rules'' = Inr rules
      \<and> fst (python_module_install_check reg ctx (state_at_first_rule s)) = Inr ret1
      \<and> fst (pip_install_check_on_ubuntu reg ctx (state_at_second_rule reg ctx s)) = Inr ret2
      \<and> fst (deb_install_check_on_ubuntu reg ctx (state_at_third_rule reg ctx s)) = Inr ret3"
  then have results: "fst (import_module ''roswtf.rules'' s) = Inr rules"
      "fst (python_module_install_check reg ctx (state_at_first_rule s)) = Inr ret1"
      "fst (pip_install_check_on_ubuntu reg ctx (state_at_second_rule reg ctx s)) = Inr ret2"
      "fst (deb_install_check_on_ubuntu reg ctx (state_at_third_rule reg ctx s)) = Inr ret3"
    by (simp_all add: import_outcome_def)
  define s0 where "s0 = state_at_first_rule s"
  define s1 where "s1 = state_at_second_rule reg ctx s"
  define s2 where "s2 = state_at_third_rule reg ctx s"
  define s3 where "s3 = state_at_end reg ctx s"
  have imported: "import_module ''roswtf.rules'' s = (Inr rules, s0)"
    using results(1) by (simp add: s0_def state_at_first_rule_def prod_eq_iff)
  have first: "python_module_install_check reg ctx s0 = (Inr ret1, s1)"
    using results(2) by (simp add: s0_def s1_def state_at_second_rule_def prod_eq_iff)
  have second: "pip_install_check_on_ubuntu reg ctx s1 = (Inr ret2, s2)"
    using results(3) by (simp add: s1_def s2_def state_at_third_rule_def prod_eq_iff)
  have third: "deb_install_check_on_ubuntu reg ctx s2 = (Inr ret3, s3)"
    using results(4) by (simp add: s2_def s3_def state_at_end_def prod_eq_iff)
  have "wtf_check reg ctx s calls =
        (Inr (), s3,
         calls @ [Warning_rule (warnings reg ! 0) ret1 ctx,
                  Warning_rule (warnings reg ! 1) ret2 ctx,
                  Warning_rule (warnings reg ! 2) ret3 ctx])"
    by (simp add: wtf_check_def warnings_def errors_def warning_rule_def
        imported first second third)
  then show "wtf_check reg ctx s calls =
        (Inr (), state_at_end reg ctx s,
         calls @ [Warning_rule (warnings reg ! 0) ret1 ctx,
                  Warning_rule (warnings reg ! 1) ret2 ctx,
                  Warning_rule (warnings reg ! 2) ret3 ctx])"
    by (simp only: s3_def)
qed

lemmas example_unfold =
  state_at_first_rule_def state_at_second_rule_def state_at_third_rule_def
  python_module_install_check_def pip_install_check_on_ubuntu_def deb_install_check_on_ubuntu_def
  is_python_package_installed_def is_python_package_installed_via_pip_on_ubuntu_def
  is_host_os_ubuntu_def get_host_os_def import_module_def is_debian_package_installed_def
  subprocess_call_def is_a_pip_path_on_ubuntu_def example_registry_def example_env_def

lemma example_rules_import:
  "import_outcome example_env ''roswtf.rules'' =
     Inr (Module (FilePath ''/opt/ros/roswtf/rules.py''))"
  by (simp add: import_outcome_def import_module_def example_env_def)

lemma example_first_rule:
  "fst (python_module_install_check example_registry () (state_at_first_rule example_env)) =
     Inr (Some ''alpha -- '')"
  by (simp add: example_unfold)

lemma example_second_rule:
  "fst (pip_install_check_on_ubuntu example_registry ()
     (state_at_second_rule example_registry () example_env)) = Inr (Some ''beta -- '')"
  by (simp add: example_unfold)

lemma example_third_rule:
  "fst (deb_install_check_on_ubuntu example_registry ()
     (state_at_third_rule example_registry () example_env)) =
   Inr (Some ''alpha (python-alpha) -- '')"
  by (simp add: example_unfold)

theorem wtf_check_dispatch_witness:
  "fst (wtf_check example_registry () example_env []) = Inr ()
   \<and> snd (snd (wtf_check example_registry () example_env [])) =
     [Warning_rule (python_module_install_check example_registry,
                    ''You are missing core ROS Python modules: '')
        (Some ''alpha -- '') (),
      Warning_rule (pip_install_check_on_ubuntu example_registry,
                    ''You have pip installed packages on Ubuntu, remove and install using Debian packages: '')
        (Some ''beta -- '') (),
      Warning_rule (deb_install_check_on_ubuntu example_registry,
                    ''You are missing Debian packages for core ROS Python modules: '')
        (Some ''alpha (python-alpha) -- '') ()]"
proof -
  have returns: "import_outcome example_env ''roswtf.rules'' =
        Inr (Module (FilePath ''/opt/ros/roswtf/rules.py''))
      \<and> fst (python_module_install_check example_registry () (state_at_first_rule example_env)) =
        Inr (Some ''alpha -- '')
      \<and> fst (pip_install_check_on_ubuntu example_registry ()
           (state_at_second_rule example_registry () example_env)) = Inr (Some ''beta -- '')
      \<and> fst (deb_install_check_on_ubuntu example_registry ()
           (state_at_third_rule example_registry () example_env)) =
        Inr (Some ''alpha (python-alpha) -- '')"
    using example_rules_import example_first_rule example_second_rule example_third_rule
    by simp
  have "wtf_check example_registry () example_env [] =
      (Inr (), state_at_end example_registry () example_env,
       [] @ [Warning_rule (warnings example_registry ! 0) (Some ''alpha -- '') (),
             Warning_rule (warnings example_registry ! 1) (Some ''beta -- '') (),
             Warning_rule (warnings example_registry ! 2) (Some ''alpha (python-alpha) -- '') ()])"
    using wtf_check_dispatch
      [of example_registry example_env "Module (FilePath ''/opt/ros/roswtf/rules.py'')" "()"
         "Some ''alpha -- ''" "Some ''beta -- ''" "Some ''alpha (python-alpha) -- ''" "[]"]
      returns
    by blast
  then show ?thesis
    by (simp add: warnings_def)
qed

section \<open>The native-package predicate\<close>

lemma is_debian_package_installed_is_full:
  "is_debian_package_installed_full (\<lambda>cmd. Inr (subprocess_call s cmd)) deb_pkg =
     Inr (is_debian_package_installed s deb_pkg)"
  by (simp add: is_debian_package_installed_full_def is_debian_package_installed_def)

text \<open>
  C5 (as amended). \<^verbatim>\<open>is_debian_package_installed\<close> returns true exactly when the
  \<^verbatim>\<open>dpkg -l\<close> query returns status zero, and false, without raising, for every
  non-zero status; a tool that the shell cannot launch is such a status. When
  \<^verbatim>\<open>subprocess.call\<close> itself raises, because its subprocess could not be launched,
  the predicate raises that exception: this failure is not turned into false.
\<close>

theorem is_debian_package_installed_full_outcomes:
  "(call (''dpkg -l '' @ deb_pkg) = Inr status \<longrightarrow>
      is_debian_package_installed_full call deb_pkg = Inr (status = 0))
   \<and> (is_debian_package_installed_full call deb_pkg = Inr True \<longleftrightarrow>
        call (''dpkg -l '' @ deb_pkg) = Inr 0)
   \<and> (is_debian_package_installed_full call deb_pkg = Inr False \<longleftrightarrow>
        (\<exists>status. status \<noteq> 0 \<and> call (''dpkg -l '' @ deb_pkg) = Inr status))
   \<and> (call (''dpkg -l '' @ deb_pkg) = Inl e \<longrightarrow>
        is_debian_package_installed_full call deb_pkg = Inl e)"
  by (cases "call (''dpkg -l '' @ deb_pkg)")
     (auto simp: is_debian_package_installed_full_def)

theorem is_debian_package_installed_full_outcomes_witness:
  "is_debian_package_installed_full example_call ''python-beta'' = Inr True
   \<and> is_debian_package_installed_full example_call ''python-alpha'' = Inr False
   \<and> is_debian_package_installed_full example_call_no_dpkg ''python-beta'' = Inr False
   \<and> is_debian_package_installed_full example_call_no_shell ''python-beta'' =
       Inl (OtherException ''OSError'')"
proof (intro conjI)
  have "example_call (''dpkg -l '' @ ''python-beta'') = Inr 0"
    by (simp add: example_call_def)
  with is_debian_package_installed_full_outcomes [of example_call "''python-beta''" 0]
  show "is_debian_package_installed_full example_call ''python-beta'' = Inr True"
    by simp
next
  have "example_call (''dpkg -l '' @ ''python-alpha'') = Inr 1"
    by (simp add: example_call_def)
  with is_debian_package_installed_full_outcomes [of example_call "''python-alpha''" 1]
  show "is_debian_package_installed_full example_call ''python-alpha'' = Inr False"
    by simp
next
  have "example_call_no_dpkg (''dpkg -l '' @ ''python-beta'') = Inr 127"
    by (simp add: example_call_no_dpkg_def)
  with is_debian_package_installed_full_outcomes [of example_call_no_dpkg "''python-beta''" 127]
  show "is_debian_package_installed_full example_call_no_dpkg ''python-beta'' = Inr False"
    by simp
next
  have "example_call_no_shell (''dpkg -l '' @ ''python-beta'') = Inl (OtherException ''OSError'')"
    by (simp add: example_call_no_shell_def)
  with is_debian_package_installed_full_outcomes
    [of example_call_no_shell "''python-beta''" _ "OtherException ''OSError''"]
  show "is_debian_package_installed_full example_call_no_shell ''python-beta'' =
      Inl (OtherException ''OSError'')"
    by blast
qed

text \<open>
  The claim as it was worded fails where the subprocess itself cannot be launched: the
  predicate neither returns false nor any other boolean, it raises.
\<close>

theorem is_debian_package_installed_launch_failure_counterexample:
  "example_call_no_shell (''dpkg -l '' @ ''python-beta'') = Inl (OtherException ''OSError'')
   \<and> is_debian_package_installed_full example_call_no_shell ''python-beta'' \<noteq> Inr False
   \<and> is_debian_package_installed_full example_call_no_shell ''python-beta'' =
       Inl (OtherException ''OSError'')"
  by (simp add: is_debian_package_installed_full_def example_call_no_shell_def)

section \<open>Two runs of a predicate\<close>





text \<open>The import of the run environment is the full import with effect-free code.\<close>

lemma import_module_is_full:
  "fst (import_module name s) =
     fst (import_module_full (effect_free_code (module_finder s)) name (interpreter_of s))
   \<and> interpreter_of (snd (import_module name s)) =
     snd (import_module_full (effect_free_code (module_finder s)) name (interpreter_of s))"
proof (cases "sys_modules s name")
  case None
  then have "(sys_modules s)(name := None) = sys_modules s"
    by (simp add: fun_upd_idem)
  with None show ?thesis
    by (simp add: import_module_def import_module_full_def effect_free_code_def
        interpreter_of_def split: sum.splits)
next
  case (Some m)
  then show ?thesis
    by (simp add: import_module_def import_module_full_def interpreter_of_def)
qed

lemma is_python_package_installed_is_full:
  "fst (is_python_package_installed name s) =
     fst (is_python_package_installed_full (effect_free_code (module_finder s)) name
            (interpreter_of s))"
proof -
  let ?full = "import_module_full (effect_free_code (module_finder s)) name (interpreter_of s)"
  have "fst (import_module name s) = fst ?full"
    using import_module_is_full [of name s] by simp
  then show ?thesis
    by (cases "import_module name s"; cases ?full)
       (auto simp: is_python_package_installed_def is_python_package_installed_full_def
          split: sum.splits)
qed





end
